theory Spec2Isabelle
  imports Main
begin

section \<open>JavaScript values and arrays\<close>

text \<open>
  The values that reach the arithmetic and the array accesses of \<^verbatim>\<open>src/index.ts\<close>:
  numbers, \<open>null\<close> (the tombstone) and \<open>undefined\<close> (what an out-of-range read gives).
  The snapshot format stores integers, so a number here is a double that holds an
  integer, or what a sum of such doubles can also give: an infinity or NaN. An array is
  a list of such values; inside
  a list \<open>Undefined\<close> stands for a hole (an index below \<open>length\<close> that was never
  assigned): the program never stores the value \<open>undefined\<close> itself.
\<close>

datatype jsval = Number int | NaN | Infinity | NegInfinity | Null | Undefined

datatype error = TypeError

subsection \<open>Doubles that hold integers\<close>

text \<open>
  A double has a 53-bit significand: every integer up to \<open>2^53 = 9007199254740992\<close> in
  absolute value is a double, a larger one is rounded to the nearest multiple of the
  power of two that leaves 53 bits, a tie going to the even significand.
  \<open>low_bits n\<close> is the number of low bits of \<open>n \<ge> 0\<close> that a double cannot hold.
\<close>

function low_bits :: "int \<Rightarrow> int" where
  "low_bits n = (if n < 9007199254740992 then 0 else 1 + low_bits (n div 2))"
  by pat_completeness auto
termination
  by (relation "measure nat") auto

declare low_bits.simps [simp del]

text \<open>The double nearest to an integer (as if the exponent had no upper end).\<close>

definition round_double :: "int \<Rightarrow> int" where
  "round_double i =
     (let n = \<bar>i\<bar>; p = 2 ^ nat (low_bits n); q = n div p; r = n mod p;
          m = (if p < 2 * r \<or> (2 * r = p \<and> odd q) then (q + 1) * p else q * p)
      in if i < 0 then - m else m)"

text \<open>The result of an operation whose exact value is the integer \<open>i\<close>: the largest
  finite double is \<open>(2^53 - 1) * 2^971\<close>, and what rounds beyond it is an infinity.\<close>

definition double_of :: "int \<Rightarrow> jsval" where
  "double_of i =
     (let r = round_double i
      in if 971 < low_bits \<bar>r\<bar> then (if 0 < r then Infinity else NegInfinity)
         else Number r)"

text \<open>\<open>ToNumber\<close>.\<close>

fun to_number :: "jsval \<Rightarrow> jsval" where
  "to_number Null = Number 0"
| "to_number Undefined = NaN"
| "to_number v = v"

text \<open>\<open>a + b\<close> and \<open>a < b\<close> on numbers.\<close>

fun add_numbers :: "jsval \<Rightarrow> jsval \<Rightarrow> jsval" where
  "add_numbers (Number x) (Number y) = double_of (x + y)"
| "add_numbers Infinity NegInfinity = NaN"
| "add_numbers NegInfinity Infinity = NaN"
| "add_numbers Infinity (Number y) = Infinity"
| "add_numbers Infinity Infinity = Infinity"
| "add_numbers (Number x) Infinity = Infinity"
| "add_numbers NegInfinity (Number y) = NegInfinity"
| "add_numbers NegInfinity NegInfinity = NegInfinity"
| "add_numbers (Number x) NegInfinity = NegInfinity"
| "add_numbers a b = NaN"

fun less_numbers :: "jsval \<Rightarrow> jsval \<Rightarrow> bool" where
  "less_numbers (Number x) (Number y) = (x < y)"
| "less_numbers (Number x) Infinity = True"
| "less_numbers NegInfinity (Number y) = True"
| "less_numbers NegInfinity Infinity = True"
| "less_numbers a b = False"

text \<open>\<open>a + b\<close> and \<open>a < b\<close> on operands that are not strings.\<close>

definition jadd :: "jsval \<Rightarrow> jsval \<Rightarrow> jsval" where
  "jadd a b = add_numbers (to_number a) (to_number b)"

definition jlt :: "jsval \<Rightarrow> jsval \<Rightarrow> bool" where
  "jlt a b = less_numbers (to_number a) (to_number b)"

text \<open>
  \<open>xs[k]\<close> for a key that is a number, null or undefined: only an integer inside the
  bounds names an element; every other key names a property that does not exist.
\<close>

fun elem_at :: "'a list \<Rightarrow> jsval \<Rightarrow> 'a option" where
  "elem_at xs (Number i) = (if 0 \<le> i \<and> i < int (length xs) then Some (xs ! nat i) else None)"
| "elem_at xs k = None"

definition aget :: "jsval list \<Rightarrow> jsval \<Rightarrow> jsval" where
  "aget xs k = (case elem_at xs k of None \<Rightarrow> Undefined | Some v \<Rightarrow> v)"

text \<open>
  \<open>xs[k] = v\<close>. An array index is an integer from 0 to \<open>2^32 - 2\<close>: inside the bounds
  the assignment replaces the element, beyond them JavaScript grows the array (holes,
  then \<open>v\<close>). Any other key sets a property that is not an element, so the elements
  stay as they are (the program reads such a property only as an operand of \<open>+\<close> or as
  a key, where what it holds and \<open>undefined\<close> give the same).
\<close>

fun aset :: "jsval list \<Rightarrow> jsval \<Rightarrow> jsval \<Rightarrow> jsval list" where
  "aset xs (Number i) v =
     (if i < 0 \<or> 4294967295 \<le> i then xs
      else if i < int (length xs) then xs[nat i := v]
      else xs @ replicate (nat i - length xs) Undefined @ [v])"
| "aset xs k v = xs"

text \<open>\<open>xs[k]--\<close>: read, convert to a number, store the number minus one.\<close>

definition adec :: "jsval list \<Rightarrow> jsval \<Rightarrow> jsval list" where
  "adec xs k = aset xs k (jadd (aget xs k) (Number (- 1)))"

section \<open>The snapshot (\<^verbatim>\<open>src/-types.ts\<close>)\<close>

text \<open>An entry of \<open>node_types\<close> or \<open>edge_types\<close> is \<open>string | string[]\<close>.\<close>

datatype type_entry = TypeName string | TypeNames "string list"

record HeapSnapshotMeta =
  node_fields :: "string list"
  node_types :: "type_entry list"
  edge_fields :: "string list"
  edge_types :: "type_entry list"

record HeapSnapshotHeader =
  meta :: HeapSnapshotMeta
  node_count :: int
  edge_count :: int

text \<open>
  The index signature \<open>[key: string]: unknown\<close> of the top level: the remaining keys
  with their parsed JSON values, in the order in which \<open>for (const key in data)\<close>
  visits them.
\<close>

datatype json = JNull | JBool bool | JNumber int | JString string
  | JArray "json list" | JObject "(string \<times> json) list"

record HeapSnapshot =
  snapshot :: HeapSnapshotHeader
  nodes :: "jsval list"
  edges :: "jsval list"
  strings :: "string list"
  others :: "(string \<times> json) list"

section \<open>The Snapshot class (\<^verbatim>\<open>src/index.ts\<close>)\<close>

definition WeakRetainerNames :: "string set" where
  "WeakRetainerNames = {''WeakMap'', ''WeakSet'', ''WeakRef'', ''DebugWeakCache'', ''DebugWeakMap''}"

text \<open>
  \<open>Object.fromEntries(fields.map((field, offset) => [field, offset]))\<close>: of two equal
  field names the later one wins.
\<close>

definition fieldOffsets :: "string list \<Rightarrow> (string \<rightharpoonup> nat)" where
  "fieldOffsets flds = map_of (rev (zip flds [0..<length flds]))"

record Snapshot =
  data :: HeapSnapshot
  nodeOffsets :: "string \<rightharpoonup> nat"
  edgeOffsets :: "string \<rightharpoonup> nat"
  nodeTypeEnum :: "type_entry option"
  edgeTypeEnum :: "type_entry option"

text \<open>A field offset used as a key: \<open>undefined\<close> when the schema has no such field.\<close>

fun key_of :: "nat option \<Rightarrow> jsval" where
  "key_of None = Undefined"
| "key_of (Some k) = Number (int k)"

text \<open>The constructor: \<open>meta.node_types[this.nodeOffsets.type]\<close> is \<open>undefined\<close> (\<open>None\<close>)
  when \<open>type\<close> is not a field or \<open>node_types\<close> is too short.\<close>

definition new_Snapshot :: "HeapSnapshot \<Rightarrow> Snapshot" where
  "new_Snapshot d =
     (let m = meta (snapshot d);
          no = fieldOffsets (node_fields m);
          eo = fieldOffsets (edge_fields m)
      in \<lparr> data = d, nodeOffsets = no, edgeOffsets = eo,
           nodeTypeEnum = elem_at (node_types m) (key_of (no ''type'')),
           edgeTypeEnum = elem_at (edge_types m) (key_of (eo ''type'')) \<rparr>)"

definition getField :: "jsval list \<Rightarrow> jsval \<Rightarrow> jsval \<Rightarrow> jsval" where
  "getField ns offset index = aget ns (jadd offset index)"

text \<open>What \<open>getNodeName\<close> returns: \<open>null\<close>, \<open>undefined\<close> (a missing string-table entry)
  or a string.\<close>

datatype jsname = NameNull | NameUndefined | Name string

text \<open>\<open>typeEnum[v]\<close>: an element of the array, one character of the string, or
  \<open>undefined\<close>; reading a property of \<open>undefined\<close> throws.\<close>

fun enum_lookup :: "type_entry option \<Rightarrow> jsval \<Rightarrow> error + string option" where
  "enum_lookup None v = Inl TypeError"
| "enum_lookup (Some (TypeNames ts)) v = Inr (elem_at ts v)"
| "enum_lookup (Some (TypeName s)) v = Inr (map_option (\<lambda>c. [c]) (elem_at s v))"

definition getNodeName :: "Snapshot \<Rightarrow> jsval \<Rightarrow> error + jsname" where
  "getNodeName wrapper nodeIndex =
     (let ns = nodes (data wrapper); strs = strings (data wrapper) in
      case enum_lookup (nodeTypeEnum wrapper)
             (aget ns (jadd nodeIndex (key_of (nodeOffsets wrapper ''type'')))) of
        Inl e \<Rightarrow> Inl e
      | Inr ty \<Rightarrow>
          if ty \<noteq> Some ''object'' then Inr NameNull
          else Inr (case elem_at strs (aget ns (jadd nodeIndex (key_of (nodeOffsets wrapper ''name'')))) of
                      None \<Rightarrow> NameUndefined | Some s \<Rightarrow> Name s))"

text \<open>\<open>!nodeName\<close> and \<open>WeakRetainerNames.has(nodeName)\<close>.\<close>

fun falsy :: "jsname \<Rightarrow> bool" where
  "falsy NameNull = True"
| "falsy NameUndefined = True"
| "falsy (Name s) = (s = [])"

fun has_name :: "string set \<Rightarrow> jsname \<Rightarrow> bool" where
  "has_name S (Name s) = (s \<in> S)"
| "has_name S NameNull = False"
| "has_name S NameUndefined = False"

text \<open>
  \<open>iterateBySlice\<close>: \<open>for (let i = start; i < end; i += sliceSize) callback(i, i + sliceSize)\<close>.
  The callback works on a state and may throw (\<open>Inl\<close>); a loop that never ends has no
  result (\<open>None\<close>): that is what a slice size of 0 gives as long as \<open>i < end\<close>, and
  what a counter gives that is so large a double that adding the slice size rounds
  back to it. A comparison with NaN is false.
\<close>

partial_function (option) iterateBySlice ::
  "jsval \<Rightarrow> jsval \<Rightarrow> jsval \<Rightarrow> (jsval \<Rightarrow> jsval \<Rightarrow> 's \<Rightarrow> (error + 's) option) \<Rightarrow> 's \<Rightarrow> (error + 's) option"
where
  "iterateBySlice i endv sliceSize callback s =
     (if jlt i endv then
        (case callback i (jadd i sliceSize) s of
           None \<Rightarrow> None
         | Some (Inl e) \<Rightarrow> Some (Inl e)
         | Some (Inr s') \<Rightarrow> iterateBySlice (jadd i sliceSize) endv sliceSize callback s')
      else Some (Inr s))"

declare iterateBySlice.simps [code]

text \<open>\<open>for (let i = edgeStart; i < edgeEnd; i++) edges[i] = null\<close>, which may not end
  either.\<close>

partial_function (option) null_slice :: "jsval \<Rightarrow> jsval \<Rightarrow> jsval list \<Rightarrow> jsval list option" where
  "null_slice i edgeEnd es =
     (if jlt i edgeEnd then null_slice (jadd i (Number 1)) edgeEnd (aset es i Null) else Some es)"

declare null_slice.simps [code]

text \<open>The callback in \<open>cleanupRetainers\<close>: null the slice, then the two decrements.\<close>

definition cleanup_slice ::
  "int \<Rightarrow> jsval \<Rightarrow> jsval \<Rightarrow> jsval \<Rightarrow> HeapSnapshot \<Rightarrow> (error + HeapSnapshot) option" where
  "cleanup_slice edgeCount startOffset edgeStart edgeEnd d =
     (case null_slice edgeStart edgeEnd (edges d) of
        None \<Rightarrow> None
      | Some es \<Rightarrow>
          (let d1 = d\<lparr>edges := es\<rparr>;
               d2 = d1\<lparr>snapshot := (snapshot d1)\<lparr>edge_count := round_double (edge_count (snapshot d1) - 1)\<rparr>\<rparr>
           in Some (Inr (d2\<lparr>nodes := adec (nodes d2) (jadd startOffset (Number edgeCount))\<rparr>))))"

definition cleanupRetainers ::
  "HeapSnapshot \<Rightarrow> int \<Rightarrow> jsval \<Rightarrow> jsval \<Rightarrow> jsval \<Rightarrow> int \<Rightarrow> (error + HeapSnapshot) option" where
  "cleanupRetainers d edgeCount startOffset start nextEdgeIdx edgeFieldsCount =
     iterateBySlice start nextEdgeIdx (Number edgeFieldsCount) (cleanup_slice edgeCount startOffset) d"

text \<open>The local variables of \<open>clean\<close> that the callback updates, with \<open>this\<close>. The two
  counters are at most the number of node slices, where \<open>++\<close> is exact.\<close>

record clean_state =
  this :: Snapshot
  nextEdgeIndex :: jsval
  totalObjects :: int
  weakRetainers :: int

text \<open>The callback of the first pass, for the node slice at \<open>startOffset\<close>.\<close>

definition clean_callback ::
  "int \<Rightarrow> int \<Rightarrow> jsval \<Rightarrow> jsval \<Rightarrow> clean_state \<Rightarrow> (error + clean_state) option" where
  "clean_callback edgeCount edgeFieldsCount startOffset endOffset st =
     (let start = nextEdgeIndex st;
          ownedEdgeCount = getField (nodes (data (this st))) startOffset (Number edgeCount);
          nxt = jadd (jadd start ownedEdgeCount) (Number edgeFieldsCount);
          st1 = st\<lparr>nextEdgeIndex := nxt, totalObjects := totalObjects st + 1\<rparr>
      in case getNodeName (this st1) startOffset of
           Inl e \<Rightarrow> Some (Inl e)
         | Inr nodeName \<Rightarrow>
             if falsy nodeName \<or> \<not> has_name WeakRetainerNames nodeName then Some (Inr st1)
             else
               (case cleanupRetainers (data (this st1)) edgeCount startOffset start nxt edgeFieldsCount of
                  None \<Rightarrow> None
                | Some (Inl e) \<Rightarrow> Some (Inl e)
                | Some (Inr d') \<Rightarrow>
                    Some (Inr (st1\<lparr>weakRetainers := weakRetainers st1 + 1,
                                   this := (this st1)\<lparr>data := d'\<rparr>\<rparr>))))"

text \<open>The second pass: \<open>edges.filter(v => v !== null)\<close>; \<open>filter\<close> skips holes.\<close>

definition compact :: "jsval list \<Rightarrow> jsval list" where
  "compact es = filter (\<lambda>v. v \<noteq> Undefined \<and> v \<noteq> Null) es"

definition clean :: "Snapshot \<Rightarrow> (error + bool \<times> Snapshot) option" where
  "clean w =
     (let ns = nodes (data w);
          fieldSliceSize = int (length (node_fields (meta (snapshot (data w)))));
          edgeCount = edge_count (snapshot (data w));
          edgeFieldsCount = int (length (edge_fields (meta (snapshot (data w)))))
      in case iterateBySlice (Number 0) (Number (int (length ns))) (Number fieldSliceSize)
                (clean_callback edgeCount edgeFieldsCount)
                \<lparr> this = w, nextEdgeIndex = Number 0, totalObjects = 0, weakRetainers = 0 \<rparr> of
           None \<Rightarrow> None
         | Some (Inl e) \<Rightarrow> Some (Inl e)
         | Some (Inr st) \<Rightarrow>
             Some (Inr (weakRetainers st > 0,
                        (this st)\<lparr>data := (data (this st))\<lparr>edges := compact (edges (data (this st)))\<rparr>\<rparr>)))"

section \<open>The caller and the serializer\<close>

text \<open>
  \<open>main\<close>, from the parsed input on: when \<open>clean\<close> reports nothing found the run only
  logs; otherwise it writes what the serializer gives for \<open>snapshot.data\<close>. The
  serializer is \<open>JSON.stringify\<close> in \<^verbatim>\<open>src/index.ts\<close> and \<open>writeOutput\<close> in the
  streaming variant of the same file.
\<close>

record run_result =
  messages :: "string list"
  written :: "string option"

definition main :: "(HeapSnapshot \<Rightarrow> string) \<Rightarrow> HeapSnapshot \<Rightarrow> (error + run_result) option" where
  "main serialize input =
     (case clean (new_Snapshot input) of
        None \<Rightarrow> None
      | Some (Inl e) \<Rightarrow> Some (Inl e)
      | Some (Inr (isDirty, snap)) \<Rightarrow>
          if \<not> isDirty then
            Some (Inr \<lparr> messages = [''Snapshot Was Already Clean''], written = None \<rparr>)
          else
            Some (Inr \<lparr> messages = [''Snapshot cleaned'', ''Snapshot written''],
                        written = Some (serialize (data snap)) \<rparr>))"

text \<open>
  \<open>JSON.stringify\<close> without indentation, on the values a snapshot holds. An integer
  up to \<open>2^53\<close> in absolute value is written with all its digits. Beyond that
  JavaScript writes the shortest digits that read back as the same double, padded with
  zeros or, from \<open>10^21\<close> on, in exponent form: that text is the parameter
  \<open>shortest_form\<close> here.
\<close>

definition digit_char :: "nat \<Rightarrow> char" where
  "digit_char n = ''0123456789abcdef'' ! (n mod 16)"

function show_nat :: "nat \<Rightarrow> string" where
  "show_nat n = (if n < 10 then [digit_char n] else show_nat (n div 10) @ [digit_char (n mod 10)])"
  by pat_completeness auto
termination
  by (relation "measure id") auto

definition show_int :: "int \<Rightarrow> string" where
  "show_int i = (if i < 0 then CHR ''-'' # show_nat (nat (- i)) else show_nat (nat i))"

definition escape_char :: "char \<Rightarrow> string" where
  "escape_char c =
     (if c = CHR 0x22 then [CHR 0x5C, CHR 0x22]
      else if c = CHR 0x5C then [CHR 0x5C, CHR 0x5C]
      else if c = CHR 0x08 then [CHR 0x5C, CHR ''b'']
      else if c = CHR 0x09 then [CHR 0x5C, CHR ''t'']
      else if c = CHR 0x0A then [CHR 0x5C, CHR ''n'']
      else if c = CHR 0x0C then [CHR 0x5C, CHR ''f'']
      else if c = CHR 0x0D then [CHR 0x5C, CHR ''r'']
      else if (of_char c :: nat) < 32 then
        [CHR 0x5C, CHR ''u'', CHR ''0'', CHR ''0'', digit_char (of_char c div 16), digit_char (of_char c)]
      else [c])"

definition quote :: "string \<Rightarrow> string" where
  "quote s = [CHR 0x22] @ concat (map escape_char s) @ [CHR 0x22]"

fun join :: "string \<Rightarrow> string list \<Rightarrow> string" where
  "join sep [] = []"
| "join sep [x] = x"
| "join sep (x # y # ys) = x @ sep @ join sep (y # ys)"

fun stringify :: "(int \<Rightarrow> string) \<Rightarrow> json \<Rightarrow> string" where
  "stringify shortest_form JNull = ''null''"
| "stringify shortest_form (JBool b) = (if b then ''true'' else ''false'')"
| "stringify shortest_form (JNumber n) =
     (if \<bar>n\<bar> \<le> 9007199254740992 then show_int n else shortest_form n)"
| "stringify shortest_form (JString s) = quote s"
| "stringify shortest_form (JArray xs) =
     ''['' @ join '','' (map (stringify shortest_form) xs) @ '']''"
| "stringify shortest_form (JObject kvs) =
     ''{'' @ join '',''
        (map (\<lambda>kv. quote (fst kv) @ '':'' @ stringify shortest_form (snd kv)) kvs) @ ''}''"

text \<open>The typed parts of a snapshot as JSON values. In an array NaN, an infinity,
  \<open>null\<close> and a hole all serialize as \<open>null\<close>. The keys of the header are taken in the order of the
  declarations in \<^verbatim>\<open>src/-types.ts\<close>.\<close>

fun jsval_json :: "jsval \<Rightarrow> json" where
  "jsval_json (Number n) = JNumber n"
| "jsval_json v = JNull"

fun type_entry_json :: "type_entry \<Rightarrow> json" where
  "type_entry_json (TypeName s) = JString s"
| "type_entry_json (TypeNames ts) = JArray (map JString ts)"

definition meta_json :: "HeapSnapshotMeta \<Rightarrow> json" where
  "meta_json m = JObject
     [(''node_fields'', JArray (map JString (node_fields m))),
      (''node_types'', JArray (map type_entry_json (node_types m))),
      (''edge_fields'', JArray (map JString (edge_fields m))),
      (''edge_types'', JArray (map type_entry_json (edge_types m)))]"

definition header_json :: "HeapSnapshotHeader \<Rightarrow> json" where
  "header_json h = JObject
     [(''meta'', meta_json (meta h)),
      (''node_count'', JNumber (node_count h)),
      (''edge_count'', JNumber (edge_count h))]"

text \<open>
  \<open>writeOutput\<close>: the chunks handed to \<open>writer.write\<close>, in order; the file holds their
  concatenation. Each field is set to \<open>null\<close> after it is serialized and is not read
  again, and the final loop skips the four keys by name.
\<close>

definition writeOutput :: "(int \<Rightarrow> string) \<Rightarrow> HeapSnapshot \<Rightarrow> string list" where
  \<open>writeOutput shortest_form d =
     [ ''{ "meta": '' @ stringify shortest_form (header_json (snapshot d)) @ '','',
       ''"nodes": '' @ stringify shortest_form (JArray (map jsval_json (nodes d))) @ '','',
       ''"edges": '' @ stringify shortest_form (JArray (map jsval_json (edges d))) @ ''}'',
       ''"strings": '' @ stringify shortest_form (JArray (map JString (strings d))) @ ''}'' ]
     @ map (\<lambda>kv. ''"'' @ fst kv @ ''": '' @ stringify shortest_form (snd kv) @ '','')
         (filter (\<lambda>kv. fst kv \<notin> {''snapshot'', ''nodes'', ''edges'', ''strings''}) (others d))\<close>

section \<open>Traversal as a list of slice offsets\<close>

text \<open>The offsets at which \<open>iterateBySlice\<close> calls its callback when every sum on the
  way is exact (with a slice size of 0 the one offset it calls forever).\<close>

function slice_starts :: "int \<Rightarrow> int \<Rightarrow> int \<Rightarrow> int list" where
  "slice_starts i e sz =
     (if i < e then (if 0 < sz then i # slice_starts (i + sz) e sz else [i]) else [])"
  by pat_completeness auto
termination
  by (relation "measure (\<lambda>(i, e, sz). nat (e - i))") auto

declare slice_starts.simps [simp del]

fun run_slices :: "(int \<Rightarrow> 's \<Rightarrow> (error + 's) option) \<Rightarrow> int list \<Rightarrow> 's \<Rightarrow> (error + 's) option" where
  "run_slices f [] s = Some (Inr s)"
| "run_slices f (k # ks) s =
     (case f k s of None \<Rightarrow> None | Some (Inl e) \<Rightarrow> Some (Inl e) | Some (Inr s') \<Rightarrow> run_slices f ks s')"

text \<open>The node slices \<open>clean\<close> traverses.\<close>

definition node_starts :: "HeapSnapshot \<Rightarrow> int list" where
  "node_starts d =
     slice_starts 0 (int (length (nodes d))) (int (length (node_fields (meta (snapshot d)))))"

text \<open>The test of the callback, \<open>!nodeName || !WeakRetainerNames.has(nodeName)\<close>, on the
  node slice at \<open>k\<close>: \<open>weak_retainer\<close> when the callback goes on to prune,
  \<open>other_node\<close> when it returns early.\<close>

definition weak_retainer :: "Snapshot \<Rightarrow> jsval \<Rightarrow> bool" where
  "weak_retainer w k = (case getNodeName w k of Inl e \<Rightarrow> False
     | Inr nm \<Rightarrow> \<not> (falsy nm \<or> \<not> has_name WeakRetainerNames nm))"

definition other_node :: "Snapshot \<Rightarrow> jsval \<Rightarrow> bool" where
  "other_node w k = (case getNodeName w k of Inl e \<Rightarrow> False
     | Inr nm \<Rightarrow> falsy nm \<or> \<not> has_name WeakRetainerNames nm)"

text \<open>An array as the input type declares it, \<open>number[]\<close>: no \<open>null\<close> and no hole.\<close>

fun is_number :: "jsval \<Rightarrow> bool" where
  "is_number Null = False"
| "is_number Undefined = False"
| "is_number v = True"

definition numbers :: "jsval list \<Rightarrow> bool" where
  "numbers xs = list_all is_number xs"


text \<open>\<open>snapshot.clean()\<close> twice on the same object: both flags and both states of the data.\<close>

definition clean_twice :: "Snapshot \<Rightarrow> (bool \<times> HeapSnapshot \<times> bool \<times> HeapSnapshot) option" where
  "clean_twice w =
     (case clean w of
        Some (Inr (b1, w1)) \<Rightarrow>
          (case clean w1 of
             Some (Inr (b2, w2)) \<Rightarrow> Some (b1, data w1, b2, data w2)
           | _ \<Rightarrow> None)
      | _ \<Rightarrow> None)"

text \<open>\<open>new Snapshot(data).clean()\<close>, then \<open>snapshot.data\<close>, as \<open>main\<close> uses them.\<close>

definition clean_data :: "HeapSnapshot \<Rightarrow> (error + bool \<times> HeapSnapshot) option" where
  "clean_data d =
     (case clean (new_Snapshot d) of
        None \<Rightarrow> None
      | Some (Inl e) \<Rightarrow> Some (Inl e)
      | Some (Inr (b, w)) \<Rightarrow> Some (Inr (b, data w)))"

text \<open>The first pass of \<open>clean\<close> as a fold over the node slices, from the initial values
  of the local variables, and what \<open>clean\<close> returns from the state the pass ends in.\<close>

definition initial_state :: "Snapshot \<Rightarrow> clean_state" where
  "initial_state w = \<lparr> this = w, nextEdgeIndex = Number 0, totalObjects = 0, weakRetainers = 0 \<rparr>"

definition first_pass :: "Snapshot \<Rightarrow> (error + clean_state) option" where
  "first_pass w =
     run_slices (\<lambda>k. clean_callback (edge_count (snapshot (data w)))
                       (int (length (edge_fields (meta (snapshot (data w))))))
                       (Number k)
                       (Number (k + int (length (node_fields (meta (snapshot (data w))))))))
       (node_starts (data w)) (initial_state w)"

definition finish :: "clean_state \<Rightarrow> bool \<times> Snapshot" where
  "finish st = (weakRetainers st > 0,
                (this st)\<lparr>data := (data (this st))\<lparr>edges := compact (edges (data (this st)))\<rparr>\<rparr>)"




section \<open>Example snapshots\<close>

definition schema3 :: HeapSnapshotMeta where
  "schema3 = \<lparr> node_fields = [''type'', ''name'', ''edge_count''],
     node_types = [TypeNames [''hidden'', ''object'', ''native''], TypeName ''string'', TypeName ''number''],
     edge_fields = [''type'', ''name_or_index'', ''to_node''],
     edge_types = [TypeNames [''context'', ''element'', ''property''],
                   TypeName ''string_or_number'', TypeName ''node''] \<rparr>"

text \<open>A snapshot over \<open>schema3\<close> (three node fields, three edge fields, type 1 is
  \<open>object\<close>) with the strings \<open>WeakMap\<close> (0) and \<open>Foo\<close> (1).\<close>

definition snap3 :: "int \<Rightarrow> int list \<Rightarrow> int list \<Rightarrow> HeapSnapshot" where
  "snap3 ec ns es =
     \<lparr> snapshot = \<lparr> meta = schema3, node_count = int (length ns) div 3, edge_count = ec \<rparr>,
       nodes = map Number ns, edges = map Number es,
       strings = [''WeakMap'', ''Foo''], others = [] \<rparr>"

text \<open>A \<open>Foo\<close> object and a native node, with zero-valued edge fields.\<close>

definition ex_other :: HeapSnapshot where
  "ex_other = snap3 2 [1,1,1, 2,0,1] [0,0,3, 1,5,0]"

text \<open>One \<open>WeakMap\<close> object with two edges.\<close>

definition ex_dirty :: HeapSnapshot where
  "ex_dirty = snap3 2 [1,0,2] [10,11,12,13,14,15]"

text \<open>A schema without a \<open>type\<close> node field.\<close>

definition ex_untyped :: HeapSnapshot where
  "ex_untyped =
     \<lparr> snapshot = \<lparr> meta = \<lparr> node_fields = [''name'', ''edge_count''],
                               node_types = [TypeName ''string'', TypeName ''number''],
                               edge_fields = [''to_node''], edge_types = [TypeName ''node''] \<rparr>,
                     node_count = 1, edge_count = 0 \<rparr>,
       nodes = [Number 0, Number 0], edges = [], strings = [''Foo''], others = [] \<rparr>"

text \<open>A \<open>Foo\<close> object, then a \<open>WeakMap\<close> object, one edge each.\<close>

definition ex_pair :: HeapSnapshot where
  "ex_pair = snap3 2 [1,1,1, 1,0,1] [10,11,12,13,14,15]"

text \<open>A \<open>WeakMap\<close> object, then a \<open>Foo\<close> object, one edge each.\<close>

definition ex_first :: HeapSnapshot where
  "ex_first = snap3 2 [1,0,1, 1,1,1] [10,11,12,13,14,15]"

text \<open>A \<open>WeakMap\<close> object without edges, then a \<open>Foo\<close> object with two.\<close>

definition ex_empty_map :: HeapSnapshot where
  "ex_empty_map = snap3 2 [1,0,0, 1,1,2] [10,11,12,13,14,15]"

text \<open>The scenario of the specification: a \<open>WeakMap\<close> object with two edges, a \<open>Foo\<close>
  object with one, a native node with none.\<close>

definition ex_scenario :: HeapSnapshot where
  "ex_scenario = snap3 3 [1,0,2, 1,1,1, 2,0,0] [10,11,12,13,14,15,16,17,18]"

text \<open>\<open>ex_dirty\<close> with two more top-level keys.\<close>

definition ex_full :: HeapSnapshot where
  "ex_full = ex_dirty\<lparr>others := [(''samples'', JArray []), (''locations'', JArray [])]\<rparr>"


section \<open>Sums that doubles hold exactly\<close>

lemma low_bits_small: "n < 9007199254740992 \<Longrightarrow> low_bits n = 0"
  by (subst low_bits.simps) simp

lemma low_bits_limit: "low_bits 9007199254740992 = 1"
  by (subst low_bits.simps) (simp add: low_bits_small)

lemma round_double_exact: "\<bar>i\<bar> \<le> 9007199254740992 \<Longrightarrow> round_double i = i"
proof (cases "\<bar>i\<bar> < 9007199254740992")
  case True
  then show ?thesis by (simp add: round_double_def low_bits_small Let_def)
next
  case False
  assume "\<bar>i\<bar> \<le> 9007199254740992"
  with False have "\<bar>i\<bar> = 9007199254740992" by simp
  then show ?thesis by (auto simp: round_double_def low_bits_limit Let_def)
qed

lemma low_bits_exact: "\<bar>i\<bar> \<le> 9007199254740992 \<Longrightarrow> low_bits \<bar>i\<bar> \<le> 1"
  by (cases "\<bar>i\<bar> < 9007199254740992") (auto simp: low_bits_small low_bits_limit)

lemma double_of_exact: "\<bar>i\<bar> \<le> 9007199254740992 \<Longrightarrow> double_of i = Number i"
  using low_bits_exact[of i] by (simp add: double_of_def round_double_exact Let_def)

lemma jadd_exact: "\<bar>a + b\<bar> \<le> 9007199254740992 \<Longrightarrow> jadd (Number a) (Number b) = Number (a + b)"
  by (simp add: jadd_def double_of_exact)

lemma jlt_Number [simp]: "jlt (Number a) (Number b) = (a < b)"
  by (simp add: jlt_def)

lemma jlt_NaN_left [simp]: "\<not> jlt NaN b"
  by (cases "to_number b") (simp_all add: jlt_def)

lemma jlt_NaN_right [simp]: "\<not> jlt a NaN"
  by (cases "to_number a") (simp_all add: jlt_def)

lemma jadd_NaN_left [simp]: "jadd NaN b = NaN"
  by (cases "to_number b") (simp_all add: jadd_def)

lemma jadd_NaN_right [simp]: "jadd a NaN = NaN"
  by (cases "to_number a") (simp_all add: jadd_def)

lemma jadd_Undefined_right [simp]: "jadd a Undefined = NaN"
  by (cases "to_number a") (simp_all add: jadd_def)

section \<open>The loop as a fold over its slice offsets\<close>

lemma iterateBySlice_done: "\<not> jlt i e \<Longrightarrow> iterateBySlice i e sz cb s = Some (Inr s)"
  by (subst iterateBySlice.simps) simp

lemma iterateBySlice_unroll:
  "0 < sz \<Longrightarrow> - 9007199254740992 \<le> i \<Longrightarrow> e + sz \<le> 9007199254740992 \<Longrightarrow>
   iterateBySlice (Number i) (Number e) (Number sz) cb s =
     run_slices (\<lambda>k. cb (Number k) (Number (k + sz))) (slice_starts i e sz) s"
proof (induction i e sz arbitrary: s rule: slice_starts.induct)
  case (1 i e sz)
  show ?case
  proof (cases "i < e")
    case False
    then show ?thesis
      by (subst slice_starts.simps) (simp add: iterateBySlice_done)
  next
    case True
    with 1(2,3,4) have "\<bar>i + sz\<bar> \<le> 9007199254740992" by simp
    then have nx: "jadd (Number i) (Number sz) = Number (i + sz)" by (rule jadd_exact)
    have step: "\<And>s'. iterateBySlice (Number (i + sz)) (Number e) (Number sz) cb s' =
        run_slices (\<lambda>k. cb (Number k) (Number (k + sz))) (slice_starts (i + sz) e sz) s'"
      using 1(1)[OF True 1(2) 1(2)] 1(2,3,4) by simp
    from True 1(2) show ?thesis
      by (subst iterateBySlice.simps, subst slice_starts.simps)
         (simp add: nx step split: option.splits sum.splits)
  qed
qed



section \<open>The first pass: what the flag counts\<close>

lemma clean_callback_cases:
  assumes "clean_callback ec efc k e st = Some (Inr st1)"
  shows "(weak_retainer (this st) k \<and> weakRetainers st1 = weakRetainers st + 1) \<or>
         (other_node (this st) k \<and> this st1 = this st \<and> weakRetainers st1 = weakRetainers st)"
  using assms
  by (auto simp: clean_callback_def weak_retainer_def other_node_def Let_def
           split: sum.splits if_splits option.splits)

lemma weak_other: "other_node w k \<Longrightarrow> \<not> weak_retainer w k"
  by (auto simp: weak_retainer_def other_node_def split: sum.splits)




lemma run_callback_frame:
  "\<forall>k\<in>set ks. other_node w (Number k) \<Longrightarrow> this st = w \<Longrightarrow> weakRetainers st = 0 \<Longrightarrow>
   \<exists>st'. run_slices (\<lambda>k. clean_callback ec efc (Number k) (Number (k + sz))) ks st = Some (Inr st')
      \<and> this st' = w \<and> weakRetainers st' = 0"
proof (induction ks arbitrary: st)
  case Nil
  then show ?case by simp
next
  case (Cons k ks)
  from Cons.prems have "other_node (this st) (Number k)" by simp
  then obtain st1 where st1: "clean_callback ec efc (Number k) (Number (k + sz)) st = Some (Inr st1)"
      "this st1 = this st" "weakRetainers st1 = weakRetainers st"
    by (auto simp: clean_callback_def other_node_def Let_def split: sum.splits)
  with Cons.prems have "this st1 = w" "weakRetainers st1 = 0" by simp_all
  from Cons.IH[OF _ this] Cons.prems(1) st1(1) show ?case by simp
qed

lemma no_fields_no_enum:
  "node_fields (meta (snapshot d)) = [] \<Longrightarrow> nodeTypeEnum (new_Snapshot d) = None"
  by (simp add: new_Snapshot_def fieldOffsets_def Let_def)

lemma getNodeName_throws:
  "nodeTypeEnum w = None \<Longrightarrow> getNodeName w k = Inl TypeError"
  by (simp add: getNodeName_def)

lemma getNodeName_returns: "nodeTypeEnum w \<noteq> None \<Longrightarrow> \<exists>nm. getNodeName w k = Inr nm"
  by (cases "nodeTypeEnum w"; cases "the (nodeTypeEnum w)") (auto simp: getNodeName_def Let_def)

lemma weak_or_other: "nodeTypeEnum w \<noteq> None \<Longrightarrow> \<not> weak_retainer w k \<Longrightarrow> other_node w k"
  using getNodeName_returns[of w k]
  by (auto simp: weak_retainer_def other_node_def)

lemma compact_numbers: "numbers es \<Longrightarrow> compact es = es"
proof (induction es)
  case Nil
  then show ?case by (simp add: compact_def)
next
  case (Cons v es)
  then show ?case by (cases v) (simp_all add: compact_def numbers_def)
qed

lemma data_new_Snapshot: "data (new_Snapshot d) = d"
  by (simp add: new_Snapshot_def Let_def)

lemma node_starts_empty: "nodes d = [] \<Longrightarrow> node_starts d = []"
  by (simp add: node_starts_def slice_starts.simps)

lemma clean_first_pass:
  assumes "node_fields (meta (snapshot (data w))) = [] \<Longrightarrow> nodeTypeEnum w = None"
    and "int (length (nodes (data w))) + int (length (node_fields (meta (snapshot (data w)))))
           \<le> 9007199254740992"
  shows "clean w = (case first_pass w of None \<Rightarrow> None | Some (Inl e) \<Rightarrow> Some (Inl e)
                    | Some (Inr st) \<Rightarrow> Some (Inr (finish st)))"
proof -
  let ?sz = "int (length (node_fields (meta (snapshot (data w)))))"
  let ?n = "int (length (nodes (data w)))"
  let ?cb = "clean_callback (edge_count (snapshot (data w))) (int (length (edge_fields (meta (snapshot (data w))))))"
  have "iterateBySlice (Number 0) (Number ?n) (Number ?sz) ?cb (initial_state w) = first_pass w"
  proof (cases "0 < ?sz")
    case True
    from iterateBySlice_unroll[OF True, of 0 ?n ?cb "initial_state w"] assms(2)
    show ?thesis by (simp add: first_pass_def node_starts_def)
  next
    case False
    then have nf: "node_fields (meta (snapshot (data w))) = []" by simp
    show ?thesis
    proof (cases "nodes (data w) = []")
      case True
      then show ?thesis
        by (simp add: iterateBySlice_done first_pass_def node_starts_def slice_starts.simps)
    next
      case False
      have "?cb (Number 0) (jadd (Number 0) (Number 0)) (initial_state w) = Some (Inl TypeError)"
        by (simp add: clean_callback_def Let_def initial_state_def getNodeName_throws[OF assms(1)[OF nf]])
      moreover have "?cb (Number 0) (Number 0) (initial_state w) = Some (Inl TypeError)"
        by (simp add: clean_callback_def Let_def initial_state_def getNodeName_throws[OF assms(1)[OF nf]])
      ultimately show ?thesis using False nf
        by (subst iterateBySlice.simps)
           (simp add: first_pass_def node_starts_def slice_starts.simps)
    qed
  qed
  then show ?thesis
    by (simp add: clean_def Let_def initial_state_def finish_def split: option.splits sum.splits)
qed



lemma clean_frame:
  assumes "nodes d = [] \<or> nodeTypeEnum (new_Snapshot d) \<noteq> None"
    and "\<forall>k\<in>set (node_starts d). \<not> weak_retainer (new_Snapshot d) (Number k)"
    and "numbers (edges d)"
    and "int (length (nodes d)) + int (length (node_fields (meta (snapshot d)))) \<le> 9007199254740992"
  shows "clean (new_Snapshot d) = Some (Inr (False, new_Snapshot d))"
proof -
  let ?w = "new_Snapshot d"
  have other: "\<forall>k\<in>set (node_starts d). other_node ?w (Number k)"
  proof (cases "nodes d = []")
    case True
    then show ?thesis by (simp add: node_starts_empty)
  next
    case False
    with assms(1,2) show ?thesis using weak_or_other by blast
  qed
  have "\<exists>st. first_pass ?w = Some (Inr st) \<and> this st = ?w \<and> weakRetainers st = 0"
    unfolding first_pass_def data_new_Snapshot
    by (rule run_callback_frame[OF other]) (simp_all add: initial_state_def)
  then obtain st where st: "first_pass ?w = Some (Inr st)" "this st = ?w" "weakRetainers st = 0"
    by blast
  have "?w\<lparr>data := (data ?w)\<lparr>edges := compact (edges (data ?w))\<rparr>\<rparr> = ?w"
    by (simp add: data_new_Snapshot compact_numbers[OF assms(3)])
  with st clean_first_pass[of ?w] no_fields_no_enum[of d] assms(4) show ?thesis
    by (simp add: finish_def data_new_Snapshot)
qed

section \<open>A loop whose counter does not move\<close>



section \<open>Pruning ends when the sums are exact\<close>















section \<open>The claims\<close>

text \<open>
  C1. The claim: for every node slice the cursor into the edge array advances by
  \<open>ownedEdgeCount * edgeStride\<close>. The callback adds the two numbers instead. On
  \<open>ex_pair\<close> (three edge fields) the first node owns one edge, so its run is the
  positions 0 to 2 and the next run starts at 3; the callback leaves the cursor at
  \<open>1 + 3 = 4\<close>, and after the second node at 8, beyond the six positions there are.
\<close>

theorem cursor_advances_by_sum:
  "getField (nodes ex_pair) (Number 0) (Number (edge_count (snapshot ex_pair))) = Number 1
   \<and> map_option (map_sum id nextEdgeIndex)
        (clean_callback (edge_count (snapshot ex_pair)) 3 (Number 0) (Number 3)
           (initial_state (new_Snapshot ex_pair)))
      = Some (Inr (Number 4))
   \<and> map_option (map_sum id nextEdgeIndex) (first_pass (new_Snapshot ex_pair)) = Some (Inr (Number 8))"
  by code_simp

text \<open>
  C2. The claim: the node's own edge count is read at the offset the schema gives for
  \<open>edge_count\<close>. \<open>clean\<close> passes \<open>snapshot.edge_count\<close>, the total, as the index. On
  \<open>ex_scenario\<close> the schema puts \<open>edge_count\<close> at offset 2, where the first node holds 2;
  the total is 3, so the value read is 1, the type field of the second node, and that
  field is what the pruning decrements (to -1) while the first node's count stays 2.
\<close>

theorem edge_count_read_at_total:
  "fieldOffsets (node_fields (meta (snapshot ex_scenario))) ''edge_count'' = Some 2
   \<and> aget (nodes ex_scenario) (Number 2) = Number 2
   \<and> getField (nodes ex_scenario) (Number 0) (Number (edge_count (snapshot ex_scenario))) = Number 1
   \<and> clean_data ex_scenario = Some (Inr (True, snap3 1 [1,0,2, -1,1,1, 2,0,0] [16,17,18]))"
  by code_simp

text \<open>
  C3. The claim: pruning a weak retainer takes its own edge count off the global count,
  sets its own count to 0 and nulls exactly its run. On \<open>ex_first\<close> the \<open>WeakMap\<close> node
  owns one edge (positions 0 to 2). The pruning loop runs over \<open>[0, 1 + 3)\<close> in steps of
  3, twice: all six positions are nulled, the global count goes from 2 to 0 and the
  node's own count from 1 to -1.
\<close>

theorem pruning_overruns_the_run:
  "map_option (map_sum id (\<lambda>st. edges (data (this st)))) (first_pass (new_Snapshot ex_first))
     = Some (Inr [Null, Null, Null, Null, Null, Null])
   \<and> clean_data ex_first = Some (Inr (True, snap3 0 [1,0,-1, 1,1,1] []))"
  by code_simp

text \<open>
  C4. The claim: after \<open>clean()\<close> the global edge count, the sum of the nodes' own edge
  counts and \<open>edges.length / edgeFieldsCount\<close> are equal. \<open>ex_pair\<close> satisfies this
  (2 = 1 + 1 = 6 / 3). After \<open>clean()\<close> the global count is 0 and the own counts are 1
  and -1, while four edge values are left.
\<close>

theorem counts_disagree_after_clean:
  "edge_count (snapshot ex_pair) = 2 \<and> length (edges ex_pair) = 2 * 3
   \<and> clean_data ex_pair = Some (Inr (True, snap3 0 [1,1,1, 1,0,-1] [10,11,12,13]))"
  by code_simp

text \<open>
  C5. The claim: a node that is not a weak retainer keeps its edge count and its edge
  records. On \<open>ex_empty_map\<close> the \<open>WeakMap\<close> node owns no edge and the \<open>Foo\<close> node owns
  the records \<open>[10,11,12]\<close> and \<open>[13,14,15]\<close>. Pruning the \<open>WeakMap\<close> node nulls the
  positions 0 to 2: the first record of \<open>Foo\<close> is gone, and its count still says 2.
\<close>

theorem other_node_loses_an_edge:
  "clean_data ex_empty_map = Some (Inr (True, snap3 1 [1,0,-1, 1,1,2] [13,14,15]))"
  by code_simp

text \<open>
  C6. The claim: the serializer writes one valid JSON object with the keys of the input,
  \<open>meta\<close> first, then \<open>nodes\<close>, \<open>edges\<close>, \<open>strings\<close> and the remaining keys. For
  \<open>ex_full\<close>, \<open>main\<close> with \<open>writeOutput\<close> writes the text below: the header under the
  key \<open>meta\<close> (the input's key is \<open>snapshot\<close>), a closing brace after the edges, the
  strings and a second closing brace after it, then each remaining key with a
  trailing comma.
\<close>

theorem writeOutput_text:
  \<open>map_option (map_sum id written) (main (\<lambda>d. concat (writeOutput shortest_form d)) ex_full) =
     Some (Inr (Some (''{ "meta": '' @ stringify shortest_form (header_json (snapshot (snap3 0 [1,0,0] [])))
        @ '',"nodes": [1,0,0],"edges": []}"strings": ["WeakMap","Foo"]}"samples": [],"locations": [],'')))\<close>
  by code_simp

text \<open>
  C7. The claim: a second \<open>clean()\<close> leaves the data as the first left them (and finds
  no weak retainer). On \<open>ex_dirty\<close> the first pass removes the two edges of the
  \<open>WeakMap\<close> node and leaves both counts at 0. The second pass reads the node's count
  at index \<open>snapshot.edge_count = 0\<close>, its type field 1, takes \<open>[0, 0 + 1 + 3)\<close> as
  its run and walks it in two steps: the global count goes from 0 to -2 and the type
  field from 1 to -1. It returns true again, the node still being a \<open>WeakMap\<close> object
  when it is classified.
\<close>

theorem second_clean_changes_data:
  "clean_twice (new_Snapshot ex_dirty) =
     Some (True, snap3 0 [1,0,0] [], True, snap3 (-2) [-1,0,0] [])
   \<and> snap3 (-2) [-1,0,0] [] \<noteq> snap3 0 [1,0,0] []"
  by code_simp




text \<open>
  C9. The claim: the classifier never throws; it returns null when the decoded type is
  not \<open>object\<close> and the string-table entry of the name field otherwise; a node is
  treated as a weak retainer exactly when that name is one of the five. As amended:
  all of this holds when the constructor found a node type table (\<open>type\<close> is a node
  field and \<open>node_types\<close> has an entry at its offset); "treated as" is the callback
  counting the node and going on to prune.
\<close>

theorem getNodeName_classifies:
  assumes "nodeTypeEnum w \<noteq> None"
  shows "\<exists>ty. enum_lookup (nodeTypeEnum w)
               (aget (nodes (data w)) (jadd k (key_of (nodeOffsets w ''type'')))) = Inr ty
     \<and> getNodeName w k =
         Inr (if ty \<noteq> Some ''object'' then NameNull
              else case elem_at (strings (data w))
                          (aget (nodes (data w)) (jadd k (key_of (nodeOffsets w ''name'')))) of
                     None \<Rightarrow> NameUndefined | Some s \<Rightarrow> Name s)
     \<and> (weak_retainer w k \<longleftrightarrow>
          getNodeName w k \<in> {Inr (Name ''WeakMap''), Inr (Name ''WeakSet''), Inr (Name ''WeakRef''),
                              Inr (Name ''DebugWeakCache''), Inr (Name ''DebugWeakMap'')})
     \<and> (\<forall>ec efc e st st1. this st = w \<and> clean_callback ec efc k e st = Some (Inr st1) \<longrightarrow>
           (weakRetainers st1 = weakRetainers st + 1) = weak_retainer w k
           \<and> (\<not> weak_retainer w k \<longrightarrow> weakRetainers st1 = weakRetainers st \<and> this st1 = w))"
proof -
  from assms obtain te where te: "nodeTypeEnum w = Some te" by auto
  obtain ty where ty: "enum_lookup (nodeTypeEnum w)
      (aget (nodes (data w)) (jadd k (key_of (nodeOffsets w ''type'')))) = Inr ty"
    using te by (cases te) auto
  have nm: "getNodeName w k =
         Inr (if ty \<noteq> Some ''object'' then NameNull
              else case elem_at (strings (data w))
                          (aget (nodes (data w)) (jadd k (key_of (nodeOffsets w ''name'')))) of
                     None \<Rightarrow> NameUndefined | Some s \<Rightarrow> Name s)"
    using ty by (simp add: getNodeName_def Let_def)
  obtain r where r: "getNodeName w k = Inr r" using nm by blast
  have wk: "weak_retainer w k \<longleftrightarrow>
          getNodeName w k \<in> {Inr (Name ''WeakMap''), Inr (Name ''WeakSet''), Inr (Name ''WeakRef''),
                              Inr (Name ''DebugWeakCache''), Inr (Name ''DebugWeakMap'')}"
    using r by (cases r) (auto simp: weak_retainer_def WeakRetainerNames_def)
  have cb: "(weakRetainers st1 = weakRetainers st + 1) = weak_retainer w k
           \<and> (\<not> weak_retainer w k \<longrightarrow> weakRetainers st1 = weakRetainers st \<and> this st1 = w)"
    if "this st = w \<and> clean_callback ec efc k e st = Some (Inr st1)" for ec efc e st st1
    using clean_callback_cases[of ec efc k e st st1] that weak_other[of w k] by auto
  from ty nm wk cb show ?thesis by blast
qed

theorem getNodeName_classifies_witness:
  "nodeTypeEnum (new_Snapshot ex_dirty) \<noteq> None
   \<and> getNodeName (new_Snapshot ex_dirty) (Number 0) = Inr (Name ''WeakMap'')
   \<and> weak_retainer (new_Snapshot ex_dirty) (Number 0)"
proof -
  have h: "nodeTypeEnum (new_Snapshot ex_dirty) \<noteq> None" by code_simp
  have g: "getNodeName (new_Snapshot ex_dirty) (Number 0) = Inr (Name ''WeakMap'')" by code_simp
  from getNodeName_classifies[OF h, of "Number 0"] g h show ?thesis by auto
qed

theorem getNodeName_throws_counterexample:
  "getNodeName (new_Snapshot ex_untyped) (Number 0) = Inl TypeError
   \<and> clean_data ex_untyped = Some (Inl TypeError)"
  by code_simp

text \<open>
  C10. The claim: on a snapshot in which no node is classified as a weak retainer, also
  one with no nodes at all, \<open>clean()\<close> returns false and leaves nodes, strings, the
  global edge count and the edges as they were. As amended: this holds when there are
  no nodes or the constructor found a node type table (without one the classifier
  throws at the first node), for a snapshot in JavaScript arrays (at most \<open>2^32 - 1\<close>
  elements). The filter copies the edges element for element since they are numbers
  (zeros included) and never the tombstone.
\<close>

theorem clean_without_weak_retainer:
  assumes "int (length (nodes d)) \<le> 4294967295"
    and "int (length (node_fields (meta (snapshot d)))) \<le> 4294967295"
    and "nodes d = [] \<or> nodeTypeEnum (new_Snapshot d) \<noteq> None"
    and "\<forall>k\<in>set (node_starts d). \<not> weak_retainer (new_Snapshot d) (Number k)"
    and "numbers (edges d)"
  shows "clean_data d = Some (Inr (False, d))"
proof -
  from assms(1,2) have "int (length (nodes d)) + int (length (node_fields (meta (snapshot d)))) \<le> 9007199254740992"
    by simp
  from clean_frame[OF assms(3,4,5) this] show ?thesis
    by (simp add: clean_data_def data_new_Snapshot)
qed

theorem clean_without_weak_retainer_witness:
  "int (length (nodes ex_other)) \<le> 4294967295
   \<and> int (length (node_fields (meta (snapshot ex_other)))) \<le> 4294967295
   \<and> nodeTypeEnum (new_Snapshot ex_other) \<noteq> None
   \<and> node_starts ex_other = [0, 3]
   \<and> \<not> weak_retainer (new_Snapshot ex_other) (Number 0)
   \<and> \<not> weak_retainer (new_Snapshot ex_other) (Number 3)
   \<and> numbers (edges ex_other) \<and> clean_data ex_other = Some (Inr (False, ex_other))"
proof -
  have h1: "int (length (nodes ex_other)) \<le> 4294967295"
    and h2: "int (length (node_fields (meta (snapshot ex_other)))) \<le> 4294967295"
    and h3: "nodeTypeEnum (new_Snapshot ex_other) \<noteq> None"
    and h4: "node_starts ex_other = [0, 3]"
    and h5: "\<not> weak_retainer (new_Snapshot ex_other) (Number 0)"
    and h6: "\<not> weak_retainer (new_Snapshot ex_other) (Number 3)"
    and h7: "numbers (edges ex_other)"
    by code_simp+
  from h4 h5 h6 have h8: "\<forall>k\<in>set (node_starts ex_other). \<not> weak_retainer (new_Snapshot ex_other) (Number k)"
    by simp
  from h3 have h9: "nodes ex_other = [] \<or> nodeTypeEnum (new_Snapshot ex_other) \<noteq> None" by simp
  from clean_without_weak_retainer[OF h1 h2 h9 h8 h7] h1 h2 h3 h4 h5 h6 h7 show ?thesis by simp
qed

theorem clean_without_weak_retainer_counterexample:
  "node_starts ex_untyped = [0]
   \<and> \<not> weak_retainer (new_Snapshot ex_untyped) (Number 0)
   \<and> nodes ex_untyped \<noteq> []
   \<and> numbers (edges ex_untyped)
   \<and> clean_data ex_untyped = Some (Inl TypeError)"
  by code_simp

end
